theory Spec2Isabelle
  imports Main "HOL-Library.AList" "HOL-Library.Sublist"
begin

section \<open>The environment constant of the coffee-shop front end\<close>

text \<open>
  The source file \<^verbatim>\<open>frontend/src/environments/environment.ts\<close> is one statement:
  \<^verbatim>\<open>
  export const environment = {
    production: false,
    apiServerUrl: "http://127.0.0.1:5000",
    auth0: {
      url: "ui-integrated.eu",
      audience: "http://127.0.0.1:5000",
      clientId: "qoP62ttvoO2QNptGjGt1ZX865aiRQx5d",
      callbackURL: "http://127.0.0.1:8100",
    },
  };
  \<close>
  An object literal is an ordinary object: its own properties are ordered, named by
  strings, writable, and the object is extensible. Property names are data here (the
  consumers address the fields by name), so the object is an association list from names
  to values rather than a HOL record, whose field names would be invisible to theorems.
\<close>

subsection \<open>Values\<close>

datatype jsval =
    JBool bool
  | JStr string
  | JUndefined
  | JObj "(string \<times> jsval) list"

type_synonym path = "string list"

text \<open>The \<^verbatim>\<open>typeof\<close> operator on the values that occur.\<close>

fun typeof :: "jsval \<Rightarrow> string" where
  "typeof (JBool b) = ''boolean''"
| "typeof (JStr s) = ''string''"
| "typeof JUndefined = ''undefined''"
| "typeof (JObj fs) = ''object''"

subsection \<open>The constant\<close>

definition environment :: jsval where
  "environment = JObj
     [(''production'', JBool False),
      (''apiServerUrl'', JStr ''http://127.0.0.1:5000''),
      (''auth0'', JObj
         [(''url'', JStr ''ui-integrated.eu''),
          (''audience'', JStr ''http://127.0.0.1:5000''),
          (''clientId'', JStr ''qoP62ttvoO2QNptGjGt1ZX865aiRQx5d''),
          (''callbackURL'', JStr ''http://127.0.0.1:8100'')])]"

subsection \<open>Reading and writing members\<close>

text \<open>
  \<open>TypeError\<close> is what the runtime throws for a member access on \<^verbatim>\<open>undefined\<close>, for an
  assignment to a \<^verbatim>\<open>const\<close> binding and (module code is strict) for an assignment to a
  member of a primitive. \<open>Builtin\<close> marks an access that is answered by the prototypes of the
  language and not by this file: a member of a boolean or of a string (\<^verbatim>\<open>length\<close>, ...), and
  a name that the object does not own but inherits from \<^verbatim>\<open>Object.prototype\<close>. What such an
  access yields is left outside the embedding.
\<close>

datatype error = TypeError | Builtin

definition object_prototype :: "string list" where
  "object_prototype =
     [''constructor'', ''hasOwnProperty'', ''isPrototypeOf'', ''propertyIsEnumerable'',
      ''toLocaleString'', ''toString'', ''valueOf'', ''__proto__'',
      ''__defineGetter__'', ''__defineSetter__'', ''__lookupGetter__'', ''__lookupSetter__'']"

text \<open>
  \<open>read_path [k1, ..., kn] v\<close> is the expression \<^verbatim>\<open>v.k1. ... .kn\<close>. A name that an object
  neither owns nor inherits reads as \<^verbatim>\<open>undefined\<close>; a further member access on that throws.
\<close>

fun read_path :: "path \<Rightarrow> jsval \<Rightarrow> error + jsval" where
  "read_path [] v = Inr v"
| "read_path (k # ks) (JObj fs) =
     (case map_of fs k of
        None \<Rightarrow> if k \<in> set object_prototype then Inl Builtin else read_path ks JUndefined
      | Some v \<Rightarrow> read_path ks v)"
| "read_path (k # ks) JUndefined = Inl TypeError"
| "read_path (k # ks) (JBool b) = Inl Builtin"
| "read_path (k # ks) (JStr s) = Inl Builtin"


text \<open>The paths of an object: the object itself and, below each owned name, the paths of its value.\<close>

fun paths_of :: "jsval \<Rightarrow> path list" where
  "paths_of (JObj fs) = [] # concat (map (\<lambda>p. map ((#) (fst p)) (paths_of (snd p))) fs)"
| "paths_of v = [[]]"

text \<open>\<^verbatim>\<open>Object.keys\<close>: the owned names, in order.\<close>

fun keys :: "jsval \<Rightarrow> string list" where
  "keys (JObj fs) = map fst fs"
| "keys v = []"

text \<open>The shape of a value: the owned names with the kind of each value, nesting kept.\<close>

datatype shape = SBool | SStr | SUndefined | SObj "(string \<times> shape) list"

fun shape_of :: "jsval \<Rightarrow> shape" where
  "shape_of (JBool b) = SBool"
| "shape_of (JStr s) = SStr"
| "shape_of JUndefined = SUndefined"
| "shape_of (JObj fs) = SObj (map (\<lambda>p. (fst p, shape_of (snd p))) fs)"

definition typeof_at :: "path \<Rightarrow> jsval \<Rightarrow> string option" where
  "typeof_at p s = (case read_path p s of Inl e \<Rightarrow> None | Inr v \<Rightarrow> Some (typeof v))"

fun nonempty_string :: "error + jsval \<Rightarrow> bool" where
  "nonempty_string (Inr (JStr s)) = (s \<noteq> [])"
| "nonempty_string r = False"

subsection \<open>The process around the constant\<close>





subsection \<open>A reference grammar for URLs\<close>

text \<open>
  The grammar the URL-typed fields are checked against, a subset of RFC 3986 without
  user information, query and fragment:
  \<^verbatim>\<open>
  URL    = scheme "://" host [ ":" port ] [ path ]
  scheme = ALPHA *( ALPHA / DIGIT / "+" / "-" / "." )
  host   = 1*( ALPHA / DIGIT / "-" / "." )
  port   = 1*DIGIT            ; at most 65535
  path   = "/" *VCHAR         ; printable ASCII, no space
  \<close>
\<close>

definition is_alpha :: "char \<Rightarrow> bool" where
  "is_alpha c = (let n = (of_char c :: nat) in (65 \<le> n \<and> n \<le> 90) \<or> (97 \<le> n \<and> n \<le> 122))"

definition is_digit :: "char \<Rightarrow> bool" where
  "is_digit c = (let n = (of_char c :: nat) in 48 \<le> n \<and> n \<le> 57)"

definition is_alnum :: "char \<Rightarrow> bool" where
  "is_alnum c = (is_alpha c \<or> is_digit c)"

definition is_vchar :: "char \<Rightarrow> bool" where
  "is_vchar c = (let n = (of_char c :: nat) in 33 \<le> n \<and> n \<le> 126)"

definition valid_scheme :: "string \<Rightarrow> bool" where
  "valid_scheme s =
     (case s of
        [] \<Rightarrow> False
      | c # cs \<Rightarrow> is_alpha c \<and> list_all (\<lambda>d. is_alnum d \<or> d \<in> set ''+-.'') cs)"

definition valid_host :: "string \<Rightarrow> bool" where
  "valid_host s = (s \<noteq> [] \<and> list_all (\<lambda>d. is_alnum d \<or> d \<in> set ''-.'') s)"

definition digits_to_nat :: "string \<Rightarrow> nat" where
  "digits_to_nat s = foldl (\<lambda>n c. 10 * n + (of_char c - 48)) 0 s"

definition valid_port :: "string \<Rightarrow> bool" where
  "valid_port s = (s \<noteq> [] \<and> list_all is_digit s \<and> digits_to_nat s \<le> 65535)"

definition valid_path :: "string \<Rightarrow> bool" where
  "valid_path s = (s = [] \<or> (hd s = CHR ''/'' \<and> list_all is_vchar s))"

record url =
  scheme :: string
  host :: string
  port :: "nat option"

definition parse_url :: "string \<Rightarrow> url option" where
  "parse_url s =
     (let sch = takeWhile (\<lambda>c. c \<noteq> CHR '':'') s;
          rest = dropWhile (\<lambda>c. c \<noteq> CHR '':'') s;
          auth = takeWhile (\<lambda>c. c \<noteq> CHR ''/'') (drop 3 rest);
          pth = dropWhile (\<lambda>c. c \<noteq> CHR ''/'') (drop 3 rest);
          h = takeWhile (\<lambda>c. c \<noteq> CHR '':'') auth;
          pt = dropWhile (\<lambda>c. c \<noteq> CHR '':'') auth
      in if valid_scheme sch \<and> take 3 rest = ''://'' \<and> valid_host h \<and> valid_path pth
         then (if pt = [] then Some \<lparr>scheme = sch, host = h, port = None\<rparr>
               else if valid_port (tl pt)
                    then Some \<lparr>scheme = sch, host = h, port = Some (digits_to_nat (tl pt))\<rparr>
                    else None)
         else None)"

text \<open>The URL a read yields, when it yields a string that parses.\<close>

fun url_of :: "error + jsval \<Rightarrow> url option" where
  "url_of (Inr (JStr s)) = parse_url s"
| "url_of r = None"

text \<open>
  The host a string field names: the host of a URL, or the string itself when it is a bare
  domain name (host characters, with a dot). Any other value names no host.
\<close>

definition is_domain :: "string \<Rightarrow> bool" where
  "is_domain s = (valid_host s \<and> CHR ''.'' \<in> set s)"

fun host_named :: "error + jsval \<Rightarrow> string option" where
  "host_named (Inr (JStr s)) =
     (case parse_url s of
        Some u \<Rightarrow> Some (host u)
      | None \<Rightarrow> if is_domain s then Some s else None)"
| "host_named r = None"

text \<open>A record addresses only the local machine when every host it names is the loopback address.\<close>

definition addresses_only_local :: "jsval \<Rightarrow> bool" where
  "addresses_only_local v =
     list_all (\<lambda>p. let h = host_named (read_path p v) in h = None \<or> h = Some ''127.0.0.1'')
       (paths_of v)"

section \<open>Properties\<close>

subsection \<open>Auxiliary facts\<close>

lemmas url_defs =
  parse_url_def valid_scheme_def valid_host_def valid_port_def valid_path_def
  is_alpha_def is_digit_def is_alnum_def is_vchar_def digits_to_nat_def Let_def

lemma paths_of_environment:
  "paths_of environment =
     [[], [''production''], [''apiServerUrl''], [''auth0''],
      [''auth0'', ''url''], [''auth0'', ''audience''],
      [''auth0'', ''clientId''], [''auth0'', ''callbackURL'']]"
  by (simp add: environment_def)



text \<open>The grammar is not vacuous: the tenant domain, which has no scheme, is rejected.\<close>

lemma parse_url_rejects_domain: "url_of (read_path [''auth0'', ''url''] environment) = None"
  by (simp add: environment_def url_defs)

subsection \<open>The values of the fields\<close>

text \<open>
  C1. The exported constant holds the values of the specification's table: \<open>production\<close>
  is the boolean false, \<open>apiServerUrl\<close> is "http://127.0.0.1:5000", and in the nested
  auth record the domain prefix (the member \<open>url\<close> of \<open>auth0\<close>) is "ui-integrated.eu", the
  audience is "http://127.0.0.1:5000", the client identifier is
  "qoP62ttvoO2QNptGjGt1ZX865aiRQx5d" and the callback URL (the member \<open>callbackURL\<close>) is
  "http://127.0.0.1:8100". A consumer reading these members obtains exactly these values.
\<close>

theorem environment_values:
  "read_path [''production''] environment = Inr (JBool False) \<and>
   read_path [''apiServerUrl''] environment = Inr (JStr ''http://127.0.0.1:5000'') \<and>
   read_path [''auth0'', ''url''] environment = Inr (JStr ''ui-integrated.eu'') \<and>
   read_path [''auth0'', ''audience''] environment = Inr (JStr ''http://127.0.0.1:5000'') \<and>
   read_path [''auth0'', ''clientId''] environment =
     Inr (JStr ''qoP62ttvoO2QNptGjGt1ZX865aiRQx5d'') \<and>
   read_path [''auth0'', ''callbackURL''] environment = Inr (JStr ''http://127.0.0.1:8100'')"
  by (simp add: environment_def)

subsection \<open>The names of the fields\<close>

text \<open>
  C2, as stated: the record has the top-level members \<open>production\<close> and \<open>apiServerUrl\<close> and
  a nested record named \<open>auth\<close> with the members \<open>domainPrefix\<close>, \<open>audience\<close>, \<open>clientId\<close> and
  \<open>callbackUrl\<close>. The object has no member \<open>auth\<close>: reading it gives \<^verbatim>\<open>undefined\<close>, reading
  \<open>auth.domainPrefix\<close> throws, and the nested record it does have owns neither
  \<open>domainPrefix\<close> nor \<open>callbackUrl\<close>.
\<close>

theorem environment_shape_counterexample:
  "shape_of environment \<noteq>
     SObj [(''production'', SBool), (''apiServerUrl'', SStr),
           (''auth'', SObj [(''domainPrefix'', SStr), (''audience'', SStr),
                            (''clientId'', SStr), (''callbackUrl'', SStr)])] \<and>
   ''auth'' \<notin> set (keys environment) \<and>
   read_path [''auth''] environment = Inr JUndefined \<and>
   read_path [''auth'', ''domainPrefix''] environment = Inl TypeError \<and>
   read_path [''auth0'', ''domainPrefix''] environment = Inr JUndefined \<and>
   read_path [''auth0'', ''callbackUrl''] environment = Inr JUndefined"
  by (simp add: environment_def object_prototype_def)

text \<open>
  C2, amended: the record consists of exactly a top-level boolean \<open>production\<close>, a
  top-level string \<open>apiServerUrl\<close> and a nested record named \<open>auth0\<close> whose members are the
  strings \<open>url\<close>, \<open>audience\<close>, \<open>clientId\<close> and \<open>callbackURL\<close>; no other member and no other
  nesting.
\<close>

theorem environment_shape:
  "shape_of environment =
     SObj [(''production'', SBool), (''apiServerUrl'', SStr),
           (''auth0'', SObj [(''url'', SStr), (''audience'', SStr),
                             (''clientId'', SStr), (''callbackURL'', SStr)])]"
  by (simp add: environment_def)

subsection \<open>The types of the fields\<close>

text \<open>
  C3. Every field of the table is present with its declared type: \<open>production\<close> is a
  boolean, the five others are strings, and none of these strings is empty.
\<close>

theorem environment_field_types:
  "typeof_at [''production''] environment = Some ''boolean'' \<and>
   typeof_at [''apiServerUrl''] environment = Some ''string'' \<and>
   typeof_at [''auth0'', ''url''] environment = Some ''string'' \<and>
   typeof_at [''auth0'', ''audience''] environment = Some ''string'' \<and>
   typeof_at [''auth0'', ''clientId''] environment = Some ''string'' \<and>
   typeof_at [''auth0'', ''callbackURL''] environment = Some ''string'' \<and>
   nonempty_string (read_path [''apiServerUrl''] environment) \<and>
   nonempty_string (read_path [''auth0'', ''url''] environment) \<and>
   nonempty_string (read_path [''auth0'', ''audience''] environment) \<and>
   nonempty_string (read_path [''auth0'', ''clientId''] environment) \<and>
   nonempty_string (read_path [''auth0'', ''callbackURL''] environment)"
  by (simp add: environment_def typeof_at_def)

subsection \<open>The URL-typed fields\<close>

text \<open>
  C4. \<open>apiServerUrl\<close>, the audience and the callback URL each parse under the reference
  grammar, with scheme \<open>http\<close>, host \<open>127.0.0.1\<close> and a port.
\<close>

theorem environment_urls_valid:
  "url_of (read_path [''apiServerUrl''] environment) =
     Some \<lparr>scheme = ''http'', host = ''127.0.0.1'', port = Some 5000\<rparr> \<and>
   url_of (read_path [''auth0'', ''audience''] environment) =
     Some \<lparr>scheme = ''http'', host = ''127.0.0.1'', port = Some 5000\<rparr> \<and>
   url_of (read_path [''auth0'', ''callbackURL''] environment) =
     Some \<lparr>scheme = ''http'', host = ''127.0.0.1'', port = Some 8100\<rparr>"
  by (simp add: environment_def url_defs)

text \<open>
  C8. The audience equals \<open>apiServerUrl\<close> as a string; both are "http://127.0.0.1:5000".
\<close>

theorem audience_is_apiServerUrl:
  "read_path [''auth0'', ''audience''] environment = read_path [''apiServerUrl''] environment \<and>
   read_path [''apiServerUrl''] environment = Inr (JStr ''http://127.0.0.1:5000'')"
  by (simp add: environment_def)

text \<open>
  C9. The client identifier is a string of exactly 32 characters, each an ASCII letter or
  digit.
\<close>

theorem clientId_alnum_32:
  "\<exists>s. read_path [''auth0'', ''clientId''] environment = Inr (JStr s) \<and>
       length s = 32 \<and> list_all is_alnum s"
  by (simp add: environment_def is_alnum_def is_alpha_def is_digit_def)

subsection \<open>Reads and overwrites\<close>






subsection \<open>Executions\<close>







subsection \<open>The hosts addressed\<close>

text \<open>
  C10, as stated: the instance addresses only the local machine. The nested record's \<open>url\<close>
  names the remote tenant \<open>ui-integrated.eu\<close>, which is not the loopback address.
\<close>

theorem addresses_only_local_counterexample:
  "host_named (read_path [''auth0'', ''url''] environment) = Some ''ui-integrated.eu'' \<and>
   \<not> addresses_only_local environment"
proof (rule conjI)
  show "host_named (read_path [''auth0'', ''url''] environment) = Some ''ui-integrated.eu''"
    by (simp add: environment_def is_domain_def url_defs)
  show "\<not> addresses_only_local environment"
    unfolding addresses_only_local_def paths_of_environment
    by (simp add: environment_def is_domain_def url_defs)
qed

text \<open>
  C10, amended: every URL-valued field (\<open>apiServerUrl\<close>, \<open>audience\<close>, \<open>callbackURL\<close>) begins
  with "http://127.0.0.1" and parses with the plain scheme \<open>http\<close> and the host \<open>127.0.0.1\<close>,
  the loopback address, and \<open>production\<close> is false: these three fields address the local
  machine.
\<close>

theorem url_fields_loopback:
  "(\<exists>s. read_path [''apiServerUrl''] environment = Inr (JStr s) \<and> prefix ''http://127.0.0.1'' s) \<and>
   (\<exists>s. read_path [''auth0'', ''audience''] environment = Inr (JStr s) \<and>
        prefix ''http://127.0.0.1'' s) \<and>
   (\<exists>s. read_path [''auth0'', ''callbackURL''] environment = Inr (JStr s) \<and>
        prefix ''http://127.0.0.1'' s) \<and>
   map_option scheme (url_of (read_path [''apiServerUrl''] environment)) = Some ''http'' \<and>
   map_option scheme (url_of (read_path [''auth0'', ''audience''] environment)) = Some ''http'' \<and>
   map_option scheme (url_of (read_path [''auth0'', ''callbackURL''] environment)) = Some ''http'' \<and>
   host_named (read_path [''apiServerUrl''] environment) = Some ''127.0.0.1'' \<and>
   host_named (read_path [''auth0'', ''audience''] environment) = Some ''127.0.0.1'' \<and>
   host_named (read_path [''auth0'', ''callbackURL''] environment) = Some ''127.0.0.1'' \<and>
   read_path [''production''] environment = Inr (JBool False)"
  by (simp add: environment_def url_defs)

end
